theory Spec2Isabelle
  imports Main
begin

section \<open>Python values\<close>

text \<open>
  The values that cross the untyped places of the handlers: what the token helpers of
  \<^verbatim>\<open>app/auth.py\<close> return, what \<^verbatim>\<open>db.get\<close> receives as a key, and what
  \<^verbatim>\<open>vars(contact).items()\<close> yields. \<open>truthy\<close> is Python's truth test, as used by
  \<^verbatim>\<open>if not email\<close> and by \<^verbatim>\<open>... if value else None\<close>; a \<^verbatim>\<open>datetime.date\<close> is always
  true.
\<close>

datatype date = Date int int int

datatype pyval = PNone | PInt int | PStr string | PDate date

fun truthy :: "pyval \<Rightarrow> bool" where
  "truthy PNone = False"
| "truthy (PInt n) = (n \<noteq> 0)"
| "truthy (PStr t) = (t \<noteq> [])"
| "truthy (PDate d) = True"

section \<open>Data model: \<^verbatim>\<open>app/models.py\<close> and \<^verbatim>\<open>app/schemas.py\<close>\<close>

text \<open>
  \<^verbatim>\<open>User\<close>: \<^verbatim>\<open>id\<close> is the integer primary key, \<^verbatim>\<open>email\<close> is unique.
  \<^verbatim>\<open>Contact\<close>: \<^verbatim>\<open>id\<close> is the integer primary key, \<^verbatim>\<open>email\<close> is unique,
  \<^verbatim>\<open>additional_info\<close> is nullable. The fields carry a prefix because the two tables
  share column names.
\<close>

record user =
  u_id :: int
  u_email :: string
  u_hashed_password :: string
  u_is_active :: bool

record contact =
  c_id :: int
  c_user_id :: int
  c_first_name :: string
  c_last_name :: string
  c_email :: string
  c_phone_number :: string
  c_birthday :: date
  c_additional_info :: "string option"

record UserCreate =
  uc_email :: string
  password :: string

record ContactCreate =
  first_name :: string
  last_name :: string
  email :: string
  phone_number :: string
  birthday :: date
  additional_info :: "string option"

record Token =
  access_token :: string
  token_type :: string
  refresh_token :: string

section \<open>The store behind \<^verbatim>\<open>AsyncSession\<close>\<close>

text \<open>
  \<^verbatim>\<open>app/database.py\<close> binds the session to PostgreSQL through asyncpg. The store is the
  committed contents of the two tables, in row order, and the last value handed out by
  the sequence behind each autoincrement primary key. A handler returns the store as it
  is once the request's session has been closed.
\<close>

record db =
  users :: "user list"
  contacts :: "contact list"
  users_id_seq :: int
  contacts_id_seq :: int

text \<open>
  The exceptions that no handler catches: \<^verbatim>\<open>AttributeError\<close> on \<^verbatim>\<open>None.id\<close>,
  \<^verbatim>\<open>NameError\<close> on a name the module does not bind, \<^verbatim>\<open>DBAPIError\<close> when the
  driver refuses a query parameter, \<^verbatim>\<open>IntegrityError\<close> on a unique constraint, and
  \<^verbatim>\<open>DetachedInstanceError\<close> when an expired attribute of an object is read after its
  session was closed.
\<close>

datatype fault =
  AttributeError | NameError | DBAPIError | IntegrityError | DetachedInstanceError

text \<open>
  What a request ends with: a response with its status code, an \<^verbatim>\<open>HTTPException\<close>
  (status code, detail, headers), or an exception that no handler catches.
\<close>

datatype 'a outcome =
    Response nat 'a
  | HTTPException nat string "(string \<times> string) list"
  | Unhandled fault

text \<open>
  \<^verbatim>\<open>db.get(User, key)\<close> looks a row up by the primary key of the table, which for
  \<^verbatim>\<open>User\<close> is the \<^verbatim>\<open>Integer\<close> column \<^verbatim>\<open>id\<close>. The key is whatever Python value the
  caller passes, and it becomes the parameter of \<^verbatim>\<open>WHERE users.id = $1\<close>: the driver
  accepts an integer of 32 bits and raises for a string, a date and an integer out of
  that range. For \<^verbatim>\<open>None\<close> the query is \<^verbatim>\<open>WHERE users.id IS NULL\<close>, which no row
  satisfies.
\<close>

definition in_int32 :: "int \<Rightarrow> bool" where
  "in_int32 n = (- 2147483648 \<le> n \<and> n \<le> 2147483647)"

fun get_User :: "db \<Rightarrow> pyval \<Rightarrow> fault + user option" where
  "get_User s (PInt n) =
     (if in_int32 n then Inr (find (\<lambda>u. u_id u = n) (users s)) else Inl DBAPIError)"
| "get_User s PNone = Inr None"
| "get_User s (PStr t) = Inl DBAPIError"
| "get_User s (PDate d) = Inl DBAPIError"

text \<open>
  \<^verbatim>\<open>db.add(new_user); await db.commit()\<close>: the insert takes the next value of the
  sequence as primary key, also when it then fails with an integrity error because the
  unique column \<^verbatim>\<open>email\<close> already holds the value.
\<close>

definition insert_User :: "db \<Rightarrow> string \<Rightarrow> string \<Rightarrow> bool \<Rightarrow> (fault + user) \<times> db" where
  "insert_User s em hp act =
     (let n = users_id_seq s + 1; s1 = s\<lparr>users_id_seq := n\<rparr> in
      if em \<in> set (map u_email (users s)) then (Inl IntegrityError, s1)
      else (let new_user = \<lparr>u_id = n, u_email = em,
                             u_hashed_password = hp, u_is_active = act\<rparr>
            in (Inr new_user, s1\<lparr>users := users s @ [new_user]\<rparr>)))"


text \<open>
  \<^verbatim>\<open>select(Contact).filter(Contact.id == contact_id, Contact.user_id == user.id)\<close>
  followed by \<^verbatim>\<open>result.scalars().first()\<close>.
\<close>

definition select_Contact :: "db \<Rightarrow> int \<Rightarrow> int \<Rightarrow> contact option" where
  "select_Contact s contact_id uid =
     find (\<lambda>c. c_id c = contact_id \<and> c_user_id c = uid) (contacts s)"

section \<open>Registration and login: \<^verbatim>\<open>app/main.py\<close>\<close>

text \<open>
  The helpers imported from \<^verbatim>\<open>app/auth.py\<close> (\<^verbatim>\<open>get_password_hash\<close>,
  \<^verbatim>\<open>verify_password\<close>, \<^verbatim>\<open>create_access_token\<close>, \<^verbatim>\<open>create_refresh_token\<close>,
  \<^verbatim>\<open>decode_access_token\<close>) are not among the sources; every handler takes the ones it
  calls as parameters.
\<close>

text \<open>
  \<^verbatim>\<open>register\<close> looks for an existing user with \<^verbatim>\<open>db.get(User, user.email)\<close>, and
  refreshes the new user after the commit.
\<close>

definition register :: "(string \<Rightarrow> string) \<Rightarrow> db \<Rightarrow> UserCreate \<Rightarrow> user outcome \<times> db" where
  "register get_password_hash s user =
     (case get_User s (PStr (uc_email user)) of
        Inl e \<Rightarrow> (Unhandled e, s)
      | Inr (Some existing_user) \<Rightarrow> (HTTPException 409 ''Email already registered'' [], s)
      | Inr None \<Rightarrow>
          (case insert_User s (uc_email user) (get_password_hash (password user)) False of
             (Inl e, s') \<Rightarrow> (Unhandled e, s')
           | (Inr new_user, s') \<Rightarrow> (Response 201 new_user, s')))"

text \<open>
  \<^verbatim>\<open>create_user\<close> looks for an existing user with a filter on \<^verbatim>\<open>User.email\<close>. It
  returns the new user after the commit without a refresh: the commit has expired the
  attributes of the object and leaving \<^verbatim>\<open>async with db\<close> has closed its session, so
  building the response from it raises. The row is committed by then.
\<close>

definition create_user :: "(string \<Rightarrow> string) \<Rightarrow> db \<Rightarrow> UserCreate \<Rightarrow> user outcome \<times> db" where
  "create_user get_password_hash s user =
     (case find (\<lambda>u. u_email u = uc_email user) (users s) of
        Some existing_user \<Rightarrow> (HTTPException 409 ''Email already registered'' [], s)
      | None \<Rightarrow>
          (case insert_User s (uc_email user) (get_password_hash (password user)) True of
             (Inl e, s') \<Rightarrow> (Unhandled e, s')
           | (Inr new_user, s') \<Rightarrow> (Unhandled DetachedInstanceError, s')))"

definition login_for_access_token ::
  "(string \<Rightarrow> string \<Rightarrow> bool) \<Rightarrow> (string \<Rightarrow> string) \<Rightarrow> (string \<Rightarrow> string) \<Rightarrow>
   db \<Rightarrow> string \<Rightarrow> string \<Rightarrow> Token outcome" where
  "login_for_access_token verify_password create_access_token create_refresh_token
     s username pw =
     (case get_User s (PStr username) of
        Inl e \<Rightarrow> Unhandled e
      | Inr None \<Rightarrow>
          HTTPException 401 ''Incorrect email or password'' [(''WWW-Authenticate'', ''Bearer'')]
      | Inr (Some user) \<Rightarrow>
          if \<not> verify_password pw (u_hashed_password user)
          then HTTPException 401 ''Incorrect email or password''
                 [(''WWW-Authenticate'', ''Bearer'')]
          else Response 200 \<lparr>access_token = create_access_token (u_email user),
                              token_type = ''bearer'',
                              refresh_token = create_refresh_token (u_email user)\<rparr>)"

definition read_users_me :: "(string \<Rightarrow> pyval) \<Rightarrow> db \<Rightarrow> string \<Rightarrow> user outcome" where
  "read_users_me decode_access_token s token =
     (let email = decode_access_token token in
      if \<not> truthy email then HTTPException 401 ''Could not validate credentials'' []
      else (case get_User s email of
              Inl e \<Rightarrow> Unhandled e
            | Inr None \<Rightarrow> HTTPException 404 ''User not found'' []
            | Inr (Some user) \<Rightarrow> Response 200 user))"

section \<open>Contacts: \<^verbatim>\<open>app/main.py\<close>\<close>


definition read_contacts :: "(string \<Rightarrow> pyval) \<Rightarrow> db \<Rightarrow> string \<Rightarrow> contact list outcome" where
  "read_contacts decode_access_token s token =
     (case get_User s (decode_access_token token) of
        Inl e \<Rightarrow> Unhandled e
      | Inr None \<Rightarrow> Unhandled AttributeError
      | Inr (Some user) \<Rightarrow> Response 200 (filter (\<lambda>c. c_user_id c = u_id user) (contacts s)))"

definition read_contact :: "(string \<Rightarrow> pyval) \<Rightarrow> db \<Rightarrow> int \<Rightarrow> string \<Rightarrow> contact outcome" where
  "read_contact decode_access_token s contact_id token =
     (case get_User s (decode_access_token token) of
        Inl e \<Rightarrow> Unhandled e
      | Inr None \<Rightarrow> Unhandled AttributeError
      | Inr (Some user) \<Rightarrow>
          (case select_Contact s contact_id (u_id user) of
             None \<Rightarrow> HTTPException 404 ''Contact not found'' []
           | Some contact \<Rightarrow> Response 200 contact))"

text \<open>
  \<^verbatim>\<open>vars(contact).items()\<close> of a validated \<^verbatim>\<open>ContactCreate\<close>: its six fields in
  declaration order.
\<close>

definition vars_ContactCreate :: "ContactCreate \<Rightarrow> (string \<times> pyval) list" where
  "vars_ContactCreate contact =
     [(''first_name'', PStr (first_name contact)),
      (''last_name'', PStr (last_name contact)),
      (''email'', PStr (email contact)),
      (''phone_number'', PStr (phone_number contact)),
      (''birthday'', PDate (birthday contact)),
      (''additional_info'',
         (case additional_info contact of None \<Rightarrow> PNone | Some t \<Rightarrow> PStr t))]"

text \<open>
  \<^verbatim>\<open>setattr(existing_contact, var, value)\<close> on the mapped columns; a name that is not a
  column, or a value of another type than the column's, leaves the columns as they are.
\<close>

definition setattr :: "contact \<Rightarrow> string \<Rightarrow> pyval \<Rightarrow> contact" where
  "setattr c var v =
     (if var = ''first_name'' then (case v of PStr t \<Rightarrow> c\<lparr>c_first_name := t\<rparr> | _ \<Rightarrow> c)
      else if var = ''last_name'' then (case v of PStr t \<Rightarrow> c\<lparr>c_last_name := t\<rparr> | _ \<Rightarrow> c)
      else if var = ''email'' then (case v of PStr t \<Rightarrow> c\<lparr>c_email := t\<rparr> | _ \<Rightarrow> c)
      else if var = ''phone_number'' then
        (case v of PStr t \<Rightarrow> c\<lparr>c_phone_number := t\<rparr> | _ \<Rightarrow> c)
      else if var = ''birthday'' then (case v of PDate d \<Rightarrow> c\<lparr>c_birthday := d\<rparr> | _ \<Rightarrow> c)
      else if var = ''additional_info'' then
        (case v of PStr t \<Rightarrow> c\<lparr>c_additional_info := Some t\<rparr>
                 | PNone \<Rightarrow> c\<lparr>c_additional_info := None\<rparr>
                 | _ \<Rightarrow> c)
      else c)"

text \<open>
  The loop \<^verbatim>\<open>for var, value in vars(contact).items(): setattr(...) if value else None\<close>.
\<close>

fun merge_fields :: "(string \<times> pyval) list \<Rightarrow> contact \<Rightarrow> contact" where
  "merge_fields [] existing_contact = existing_contact"
| "merge_fields ((var, v) # items) existing_contact =
     merge_fields items (if truthy v then setattr existing_contact var v else existing_contact)"

text \<open>
  The handler ends with \<^verbatim>\<open>db.commit()\<close>, without \<^verbatim>\<open>await\<close>: the coroutine is
  created and never run, the session has \<^verbatim>\<open>autoflush=False\<close>, and leaving
  \<^verbatim>\<open>async with db\<close> closes the session, so the store keeps the row as it was. The
  response carries the object the loop has changed.
\<close>

definition update_contact ::
  "(string \<Rightarrow> pyval) \<Rightarrow> db \<Rightarrow> int \<Rightarrow> ContactCreate \<Rightarrow> string \<Rightarrow> contact outcome \<times> db" where
  "update_contact decode_access_token s contact_id contact token =
     (case get_User s (decode_access_token token) of
        Inl e \<Rightarrow> (Unhandled e, s)
      | Inr None \<Rightarrow> (Unhandled AttributeError, s)
      | Inr (Some user) \<Rightarrow>
          (case select_Contact s contact_id (u_id user) of
             None \<Rightarrow> (HTTPException 404 ''Contact not found'' [], s)
           | Some existing_contact \<Rightarrow>
               (Response 200 (merge_fields (vars_ContactCreate contact) existing_contact), s)))"


section \<open>Email verification: \<^verbatim>\<open>app/main.py\<close>\<close>

text \<open>
  The first statement of the handler is \<^verbatim>\<open>email = decode_token(token)\<close>. The first
  argument of \<open>verify_email_body\<close> is what the global name \<^verbatim>\<open>decode_token\<close> is bound to
  when the handler runs; calling an unbound name raises before the session is used.
  \<^verbatim>\<open>user.is_active = True; db.add(user); await db.commit()\<close> updates the row with the
  primary key of \<^verbatim>\<open>user\<close>.
\<close>

definition verify_email_body ::
  "(string \<Rightarrow> pyval) option \<Rightarrow> db \<Rightarrow> string \<Rightarrow> (string \<times> string) list outcome \<times> db" where
  "verify_email_body decode_token s token =
     (case decode_token of
        None \<Rightarrow> (Unhandled NameError, s)
      | Some decode \<Rightarrow>
          (case get_User s (decode token) of
             Inl e \<Rightarrow> (Unhandled e, s)
           | Inr None \<Rightarrow> (HTTPException 404 ''User not found'' [], s)
           | Inr (Some user) \<Rightarrow>
               (Response 200 [(''message'', ''Email verified'')],
                s\<lparr>users :=
                    map (\<lambda>u. if u_id u = u_id user then u\<lparr>u_is_active := True\<rparr> else u)
                      (users s)\<rparr>)))"

text \<open>
  \<^verbatim>\<open>app/main.py\<close> imports \<^verbatim>\<open>create_access_token\<close>, \<^verbatim>\<open>create_refresh_token\<close>,
  \<^verbatim>\<open>decode_access_token\<close>, \<^verbatim>\<open>get_password_hash\<close> and \<^verbatim>\<open>verify_password\<close> from
  \<^verbatim>\<open>app/auth.py\<close>, and no statement of the module defines or imports
  \<^verbatim>\<open>decode_token\<close>: in the handler as it is written the name is unbound.
\<close>

definition verify_email :: "db \<Rightarrow> string \<Rightarrow> (string \<times> string) list outcome \<times> db" where
  "verify_email s token = verify_email_body None s token"

section \<open>Token service\<close>

text \<open>
  Modelled from the spec: the token service of \<^verbatim>\<open>app/auth.py\<close>
  (\<^verbatim>\<open>create_access_token\<close>, \<^verbatim>\<open>create_refresh_token\<close>, \<^verbatim>\<open>decode_access_token\<close>) is not
  among the sources. A token embeds the subject, the kind and the expiry, and carries a
  signature over them made with the process-wide secret; the signing function, the secret
  and the time-to-live of each kind are parameters. Time is counted in seconds.
\<close>

datatype token_kind = Access | Refresh

record claims =
  sub :: string
  exp :: int
  kind :: token_kind

datatype token = Signed claims string | Malformed string

datatype decoded = Subject string | Invalid

text \<open>
  Modelled from the spec: \<^verbatim>\<open>issue(subject, kind, now)\<close> produces a signed token embedding
  the subject and an expiry \<^verbatim>\<open>now + TTL(kind)\<close>.
\<close>

definition issue ::
  "(string \<Rightarrow> claims \<Rightarrow> string) \<Rightarrow> string \<Rightarrow> (token_kind \<Rightarrow> int) \<Rightarrow>
   string \<Rightarrow> token_kind \<Rightarrow> int \<Rightarrow> token" where
  "issue sign secret TTL subject k now =
     (let c = \<lparr>sub = subject, exp = now + TTL k, kind = k\<rparr> in Signed c (sign secret c))"

text \<open>
  Modelled from the spec: \<^verbatim>\<open>decode(token, now)\<close> verifies the signature and that
  \<^verbatim>\<open>now < expiry\<close>, and returns the embedded subject; a malformed token, a bad signature
  and an expired token give \<^verbatim>\<open>Invalid\<close>.
\<close>

fun decode :: "(string \<Rightarrow> claims \<Rightarrow> string) \<Rightarrow> string \<Rightarrow> token \<Rightarrow> int \<Rightarrow> decoded" where
  "decode sign secret (Malformed raw) now = Invalid"
| "decode sign secret (Signed c sg) now =
     (if sg \<noteq> sign secret c then Invalid
      else if now < exp c then Subject (sub c)
      else Invalid)"

section \<open>Sample data\<close>

text \<open>
  Two users, a contact of the second one, and stand-ins for the helpers of
  \<^verbatim>\<open>app/auth.py\<close>, on which the theorems below are run.
\<close>

definition alice :: user where
  "alice = \<lparr>u_id = 1, u_email = ''alice@example.com'', u_hashed_password = ''hash-a'',
            u_is_active = False\<rparr>"

definition bob :: user where
  "bob = \<lparr>u_id = 2, u_email = ''bob@example.com'', u_hashed_password = ''hash-b'',
          u_is_active = True\<rparr>"

definition jane :: contact where
  "jane = \<lparr>c_id = 7, c_user_id = 2, c_first_name = ''Jane'', c_last_name = ''Doe'',
           c_email = ''jane@x.com'', c_phone_number = ''555-0100'',
           c_birthday = Date 1990 1 1, c_additional_info = Some ''met in Kyiv''\<rparr>"

definition sample_db :: db where
  "sample_db = \<lparr>users = [alice, bob], contacts = [jane],
                users_id_seq = 2, contacts_id_seq = 7\<rparr>"

definition sample_decode :: "string \<Rightarrow> pyval" where
  "sample_decode token =
     (if token = ''token-1'' then PInt 1
      else if token = ''token-2'' then PInt 2
      else if token = ''token-99'' then PInt 99
      else if token = ''token-alice'' then PStr ''alice@example.com''
      else PNone)"

definition sample_hash :: "string \<Rightarrow> string" where
  "sample_hash pw = ''hash-'' @ pw"

definition sample_verify :: "string \<Rightarrow> string \<Rightarrow> bool" where
  "sample_verify pw h = (h = ''hash-'' @ pw)"

definition sample_create_token :: "string \<Rightarrow> string" where
  "sample_create_token subject = ''token-for-'' @ subject"

definition sample_sign :: "string \<Rightarrow> claims \<Rightarrow> string" where
  "sample_sign secret c = secret @ sub c"

fun sample_TTL :: "token_kind \<Rightarrow> int" where
  "sample_TTL Access = 900"
| "sample_TTL Refresh = 604800"


definition rename_jane :: ContactCreate where
  "rename_jane = \<lparr>first_name = ''New'', last_name = ''Doe'', email = ''jane@x.com'',
                  phone_number = ''555-0100'', birthday = Date 1990 1 1,
                  additional_info = Some ''met in Kyiv''\<rparr>"


definition new_user_request :: UserCreate where
  "new_user_request = \<lparr>uc_email = ''user@example.com'', password = ''password''\<rparr>"

section \<open>Facts about the store\<close>

lemma get_User_PStr: "get_User s (PStr e) = Inl DBAPIError"
  by simp

lemma get_User_Some:
  "get_User s key = Inr (Some u) \<Longrightarrow> u \<in> set (users s) \<and> key = PInt (u_id u)"
  by (cases key) (auto simp: find_Some_iff split: if_splits)





lemma read_contact_resolved:
  "get_User s (d token) = Inr (Some caller) \<Longrightarrow>
   read_contact d s k token =
     (case select_Contact s k (u_id caller) of
        None \<Rightarrow> HTTPException 404 ''Contact not found'' []
      | Some c \<Rightarrow> Response 200 c)"
  by (simp add: read_contact_def)

lemma update_contact_resolved:
  "get_User s (d token) = Inr (Some caller) \<Longrightarrow>
   update_contact d s k req token =
     (case select_Contact s k (u_id caller) of
        None \<Rightarrow> (HTTPException 404 ''Contact not found'' [], s)
      | Some c \<Rightarrow> (Response 200 (merge_fields (vars_ContactCreate req) c), s))"
  by (simp add: update_contact_def)


section \<open>Contacts are reached only through their owner\<close>


lemma sample_get_1: "get_User sample_db (sample_decode ''token-1'') = Inr (Some alice)"
  by (simp add: in_int32_def sample_db_def sample_decode_def alice_def bob_def)

lemma sample_get_2: "get_User sample_db (sample_decode ''token-2'') = Inr (Some bob)"
  by (simp add: in_int32_def sample_db_def sample_decode_def alice_def bob_def)



section \<open>Token round trip\<close>

text \<open>
  Claim C2. For every subject, kind and issuance time \<open>t0\<close>, decoding the issued token at a
  time \<open>t < t0 + TTL k\<close> returns the subject, and decoding it at a time \<open>t \<ge> t0 + TTL k\<close>
  returns \<open>Invalid\<close>.
\<close>

theorem decode_issue_roundtrip:
  "(t < t0 + TTL k \<longrightarrow>
      decode sign secret (issue sign secret TTL subject k t0) t = Subject subject)
   \<and> (t0 + TTL k \<le> t \<longrightarrow>
      decode sign secret (issue sign secret TTL subject k t0) t = Invalid)"
  by (simp add: issue_def Let_def)

theorem decode_issue_roundtrip_witness:
  "(1099::int) < 200 + sample_TTL Access
   \<and> decode sample_sign ''secret''
        (issue sample_sign ''secret'' sample_TTL ''alice@example.com'' Access 200) 1099 =
      Subject ''alice@example.com''
   \<and> (200::int) + sample_TTL Access \<le> 1100
   \<and> decode sample_sign ''secret''
        (issue sample_sign ''secret'' sample_TTL ''alice@example.com'' Access 200) 1100 =
      Invalid"
  using decode_issue_roundtrip
          [of 1099 200 sample_TTL Access sample_sign "''secret''" "''alice@example.com''"]
        decode_issue_roundtrip
          [of 1100 200 sample_TTL Access sample_sign "''secret''" "''alice@example.com''"]
  by simp

section \<open>Creating a contact\<close>



section \<open>The current user\<close>





section \<open>Login\<close>

text \<open>
  Claim C4 asks for the same 401 "Incorrect email or password" for an unknown email and
  for a wrong password. \<^verbatim>\<open>login_for_access_token\<close> passes the username, a string, to
  \<^verbatim>\<open>db.get(User, form_data.username)\<close>: for every store, username and password the
  lookup raises, and the request ends in that exception and not in the 401.
\<close>

theorem login_raises_for_every_username:
  "login_for_access_token verify_password create_access_token create_refresh_token
     s username pw = Unhandled DBAPIError
   \<and> login_for_access_token verify_password create_access_token create_refresh_token
     s username pw \<noteq>
     HTTPException 401 ''Incorrect email or password'' [(''WWW-Authenticate'', ''Bearer'')]"
  by (simp add: login_for_access_token_def)

section \<open>Registration\<close>

text \<open>
  Claim C5 asks for 201 on the first registration of an email and 409 on the second.
  \<^verbatim>\<open>register\<close> checks for a duplicate with \<^verbatim>\<open>db.get(User, user.email)\<close>, a lookup of
  the email string in the integer primary key: for every store and request the lookup
  raises, nothing is stored, and neither 201 nor 409 is reached. \<^verbatim>\<open>create_user\<close>, which
  filters on \<^verbatim>\<open>User.email\<close>, answers 409 for an email that is stored.
\<close>

theorem register_never_conflict:
  "register get_password_hash s user = (Unhandled DBAPIError, s)
   \<and> fst (create_user sample_hash sample_db
            \<lparr>uc_email = ''alice@example.com'', password = ''password''\<rparr>) =
       HTTPException 409 ''Email already registered'' []"
  by (simp add: register_def create_user_def sample_db_def alice_def)

text \<open>
  Claim C10 asks that \<^verbatim>\<open>register\<close> stores the new user with \<open>u_is_active = False\<close> and
  \<^verbatim>\<open>create_user\<close> stores it with \<open>u_is_active = True\<close>. On the sample store, with an email
  that is not yet stored, \<^verbatim>\<open>register\<close> raises at the lookup and stores nothing, so no
  inactive user comes to exist; \<^verbatim>\<open>create_user\<close> commits the user with
  \<open>u_is_active = True\<close>.
\<close>

theorem register_stores_no_user:
  "''user@example.com'' \<notin> set (map u_email (users sample_db))
   \<and> register sample_hash sample_db new_user_request = (Unhandled DBAPIError, sample_db)
   \<and> (\<exists>u. users (snd (create_user sample_hash sample_db new_user_request)) =
             users sample_db @ [u]
          \<and> u_email u = ''user@example.com'' \<and> u_is_active u)"
proof -
  have fresh: "''user@example.com'' \<notin> set (map u_email (users sample_db))"
    by (simp add: sample_db_def alice_def bob_def)
  then have "find (\<lambda>u. u_email u = ''user@example.com'') (users sample_db) = None"
    by (force simp: find_None_iff)
  then have "\<exists>u. users (snd (create_user sample_hash sample_db new_user_request)) =
             users sample_db @ [u]
          \<and> u_email u = ''user@example.com'' \<and> u_is_active u"
    using fresh by (simp add: create_user_def insert_User_def Let_def new_user_request_def)
  moreover have "register sample_hash sample_db new_user_request =
      (Unhandled DBAPIError, sample_db)"
    by (simp add: register_def)
  ultimately show ?thesis using fresh by blast
qed

section \<open>Lookups keyed with an email\<close>

text \<open>
  Claim C8. \<^verbatim>\<open>db.get(User, key)\<close> keys on the integer primary key \<open>u_id\<close>: for a stored
  user, the get keyed with the user's id returns a row with that id, and the get keyed
  with the user's email does not return the row (it raises). So \<^verbatim>\<open>register\<close>,
  \<^verbatim>\<open>login_for_access_token\<close> and \<^verbatim>\<open>read_users_me\<close>, which pass the email, never obtain
  the user.
\<close>

theorem get_User_by_email_misses:
  assumes "u \<in> set (users s)" and "in_int32 (u_id u)"
  shows "(\<exists>row. get_User s (PInt (u_id u)) = Inr (Some row) \<and> u_id row = u_id u)
       \<and> get_User s (PStr (u_email u)) \<noteq> Inr (Some u)
       \<and> get_User s (PStr (u_email u)) = Inl DBAPIError
       \<and> fst (register get_password_hash s \<lparr>uc_email = u_email u, password = pw\<rparr>) =
           Unhandled DBAPIError
       \<and> login_for_access_token verify_password create_access_token create_refresh_token
           s (u_email u) pw = Unhandled DBAPIError
       \<and> (decode_access_token token = PStr (u_email u) \<longrightarrow>
            read_users_me decode_access_token s token \<noteq> Response 200 u)"
proof -
  from assms(1) have "find (\<lambda>x. u_id x = u_id u) (users s) \<noteq> None"
    by (auto simp: find_None_iff)
  then obtain row where row: "find (\<lambda>x. u_id x = u_id u) (users s) = Some row"
    by blast
  then have "u_id row = u_id u"
    by (auto simp: find_Some_iff)
  with row assms(2)
  have "\<exists>row. get_User s (PInt (u_id u)) = Inr (Some row) \<and> u_id row = u_id u"
    by simp
  then show ?thesis
    by (simp add: register_def login_for_access_token_def read_users_me_def Let_def
          del: get_User.simps(1))
qed

theorem get_User_by_email_misses_witness:
  "alice \<in> set (users sample_db) \<and> in_int32 (u_id alice)
   \<and> get_User sample_db (PInt (u_id alice)) = Inr (Some alice)
   \<and> get_User sample_db (PStr (u_email alice)) = Inl DBAPIError
   \<and> sample_decode ''token-alice'' = PStr (u_email alice)
   \<and> read_users_me sample_decode sample_db ''token-alice'' \<noteq> Response 200 alice
   \<and> login_for_access_token sample_verify sample_create_token sample_create_token
        sample_db (u_email alice) ''a'' = Unhandled DBAPIError"
proof -
  have mem: "alice \<in> set (users sample_db)" by (simp add: sample_db_def)
  have rng: "in_int32 (u_id alice)" by (simp add: in_int32_def alice_def)
  have tok: "sample_decode ''token-alice'' = PStr (u_email alice)"
    by (simp add: sample_decode_def alice_def)
  have one: "sample_decode ''token-1'' = PInt (u_id alice)"
    by (simp add: sample_decode_def alice_def)
  have got: "get_User sample_db (PInt (u_id alice)) = Inr (Some alice)"
    using sample_get_1 by (simp only: one)
  from get_User_by_email_misses
         [where decode_access_token = sample_decode and token = "''token-alice''"
            and verify_password = sample_verify and create_access_token = sample_create_token
            and create_refresh_token = sample_create_token and pw = "''a''", OF mem rng]
       mem rng tok got
  show ?thesis by blast
qed

section \<open>Updating a contact\<close>

lemma merge_step_first_name:
  "(if truthy (PStr t) then setattr c ''first_name'' (PStr t) else c) =
     c\<lparr>c_first_name := (if t = [] then c_first_name c else t)\<rparr>"
  by (simp add: setattr_def)

lemma merge_step_last_name:
  "(if truthy (PStr t) then setattr c ''last_name'' (PStr t) else c) =
     c\<lparr>c_last_name := (if t = [] then c_last_name c else t)\<rparr>"
  by (simp add: setattr_def)

lemma merge_step_email:
  "(if truthy (PStr t) then setattr c ''email'' (PStr t) else c) =
     c\<lparr>c_email := (if t = [] then c_email c else t)\<rparr>"
  by (simp add: setattr_def)

lemma merge_step_phone_number:
  "(if truthy (PStr t) then setattr c ''phone_number'' (PStr t) else c) =
     c\<lparr>c_phone_number := (if t = [] then c_phone_number c else t)\<rparr>"
  by (simp add: setattr_def)

lemma merge_step_birthday:
  "(if truthy (PDate d) then setattr c ''birthday'' (PDate d) else c) = c\<lparr>c_birthday := d\<rparr>"
  by (simp add: setattr_def)

lemma merge_step_additional_info:
  "(if truthy (case a of None \<Rightarrow> PNone | Some t \<Rightarrow> PStr t)
    then setattr c ''additional_info'' (case a of None \<Rightarrow> PNone | Some t \<Rightarrow> PStr t) else c) =
     c\<lparr>c_additional_info :=
         (case a of None \<Rightarrow> c_additional_info c
          | Some t \<Rightarrow> if t = [] then c_additional_info c else Some t)\<rparr>"
  by (cases a) (simp_all add: setattr_def)

lemma merge_fields_vars:
  "merge_fields (vars_ContactCreate req) old =
     old\<lparr>c_first_name := (if first_name req = [] then c_first_name old else first_name req),
         c_last_name := (if last_name req = [] then c_last_name old else last_name req),
         c_email := (if email req = [] then c_email old else email req),
         c_phone_number :=
           (if phone_number req = [] then c_phone_number old else phone_number req),
         c_birthday := birthday req,
         c_additional_info :=
           (case additional_info req of
              None \<Rightarrow> c_additional_info old
            | Some t \<Rightarrow> if t = [] then c_additional_info old else Some t)\<rparr>"
  unfolding vars_ContactCreate_def merge_fields.simps
    merge_step_first_name merge_step_last_name merge_step_email merge_step_phone_number
    merge_step_birthday merge_step_additional_info
  by (simp split: option.split)


text \<open>
  Claim C6 asks that the request fields with a true value overwrite the stored fields.
  \<^verbatim>\<open>update_contact\<close> ends with \<^verbatim>\<open>db.commit()\<close> without \<^verbatim>\<open>await\<close>, where every other
  writing handler awaits the commit: the store a request leaves behind is the store it
  found. On the sample store the owner of contact 7 sends the stored values with
  \<^verbatim>\<open>first_name = "New"\<close>; the response carries the new name, and reading the contact
  afterwards returns the stored row with the old one.
\<close>

theorem update_contact_not_stored:
  "snd (update_contact decode_access_token s contact_id req token) = s
   \<and> update_contact sample_decode sample_db 7 rename_jane ''token-2'' =
       (Response 200 (jane\<lparr>c_first_name := ''New''\<rparr>), sample_db)
   \<and> read_contact sample_decode
        (snd (update_contact sample_decode sample_db 7 rename_jane ''token-2'')) 7 ''token-2'' =
       Response 200 jane
   \<and> c_first_name jane = ''Jane''"
proof -
  have frame: "snd (update_contact decode_access_token s contact_id req token) = s"
    by (simp add: update_contact_def split: sum.split option.split)
  have sel: "select_Contact sample_db 7 (u_id bob) = Some jane"
    by (simp add: select_Contact_def sample_db_def jane_def bob_def)
  have merged: "merge_fields (vars_ContactCreate rename_jane) jane =
      jane\<lparr>c_first_name := ''New''\<rparr>"
    unfolding merge_fields_vars by (simp add: rename_jane_def jane_def)
  have run: "update_contact sample_decode sample_db 7 rename_jane ''token-2'' =
      (Response 200 (jane\<lparr>c_first_name := ''New''\<rparr>), sample_db)"
    by (simp add: update_contact_resolved [where d = sample_decode, OF sample_get_2]
          sel merged)
  have after: "read_contact sample_decode sample_db 7 ''token-2'' = Response 200 jane"
    by (simp add: read_contact_resolved [where d = sample_decode, OF sample_get_2] sel)
  have name: "c_first_name jane = ''Jane''"
    by (simp add: jane_def)
  show ?thesis
    unfolding run using frame run after name by simp
qed

section \<open>Verifying an email address\<close>

text \<open>
  Claim C9 asks that \<^verbatim>\<open>verify_email\<close> sets the active flag of the user the token
  identifies, commits, and answers 200. The handler calls \<^verbatim>\<open>decode_token\<close>, a name that
  \<^verbatim>\<open>app/main.py\<close> does not bind: for every store and token the call raises, the store is
  left as it was, and on the sample store the inactive user stays inactive.
\<close>

theorem verify_email_name_error:
  "verify_email s token = (Unhandled NameError, s)
   \<and> \<not> u_is_active alice
   \<and> alice \<in> set (users (snd (verify_email sample_db ''token-1'')))"
  by (simp add: verify_email_def verify_email_body_def alice_def sample_db_def)

end
